theory Spec2Isabelle
  imports Complex_Main
begin

section \<open>Numbers\<close>

text \<open>
  A JavaScript number is an IEEE-754 double: a finite value, an infinity or NaN. A finite
  double is carried as the real number it denotes, \<open>Infinite True\<close> is the negative
  infinity. The sign of a zero is not carried: the program divides only by constants
  that are not zero, so it cannot see that sign.

  \<open>rnd\<close> rounds a real to the nearest double, a tie to the even mantissa: the
  mantissa has 53 bits, the least exponent of the last bit is \<open>-1074\<close>, and a result
  that rounds to \<open>2\<^sup>1\<^sup>0\<^sup>2\<^sup>4\<close> or beyond is infinite. Addition, subtraction,
  multiplication, division and the square root round the exact result; the remainder
  \<^verbatim>\<open>%\<close> truncates the quotient towards zero and is exact. A decimal literal of the
  source denotes the double nearest to it (\<open>num\<close>).
\<close>

datatype number = Finite real | Infinite bool | NaN

definition round_even :: "real \<Rightarrow> int" where
  "round_even q =
     (let f = \<lfloor>q\<rfloor>; d = q - of_int f
      in if d < 1 / 2 then f else if 1 / 2 < d then f + 1 else if even f then f else f + 1)"

definition ulp_exp :: "real \<Rightarrow> int" where
  "ulp_exp r = max (\<lfloor>log 2 \<bar>r\<bar>\<rfloor> - 52) (- 1074)"

definition rnd :: "real \<Rightarrow> number" where
  "rnd r =
     (if r = 0 then Finite 0
      else (let e = ulp_exp r;
                v = of_int (round_even (r / 2 powi e)) * 2 powi e
            in if 2 powi 1024 \<le> \<bar>v\<bar> then Infinite (r < 0) else Finite v))"

definition num :: "real \<Rightarrow> number" where
  "num r = rnd r"

definition Math_PI :: number where
  "Math_PI = Finite (884279719003555 / 2 ^ 48)"

definition trunc :: "real \<Rightarrow> int" where
  "trunc q = (if 0 \<le> q then \<lfloor>q\<rfloor> else \<lceil>q\<rceil>)"

fun fneg :: "number \<Rightarrow> number" where
  "fneg (Finite a) = Finite (- a)"
| "fneg (Infinite s) = Infinite (\<not> s)"
| "fneg NaN = NaN"

fun fadd :: "number \<Rightarrow> number \<Rightarrow> number" where
  "fadd (Finite a) (Finite b) = rnd (a + b)"
| "fadd (Finite a) (Infinite t) = Infinite t"
| "fadd (Infinite s) (Finite b) = Infinite s"
| "fadd (Infinite s) (Infinite t) = (if s = t then Infinite s else NaN)"
| "fadd NaN y = NaN"
| "fadd x NaN = NaN"

definition fsub :: "number \<Rightarrow> number \<Rightarrow> number" where
  "fsub x y = fadd x (fneg y)"

fun fmul :: "number \<Rightarrow> number \<Rightarrow> number" where
  "fmul (Finite a) (Finite b) = rnd (a * b)"
| "fmul (Finite a) (Infinite t) = (if a = 0 then NaN else Infinite (t \<noteq> (a < 0)))"
| "fmul (Infinite s) (Finite b) = (if b = 0 then NaN else Infinite (s \<noteq> (b < 0)))"
| "fmul (Infinite s) (Infinite t) = Infinite (s \<noteq> t)"
| "fmul NaN y = NaN"
| "fmul x NaN = NaN"

fun fdiv :: "number \<Rightarrow> number \<Rightarrow> number" where
  "fdiv (Finite a) (Finite b) =
     (if b = 0 then (if a = 0 then NaN else Infinite (a < 0)) else rnd (a / b))"
| "fdiv (Finite a) (Infinite t) = Finite 0"
| "fdiv (Infinite s) (Finite b) = Infinite (s \<noteq> (b < 0))"
| "fdiv (Infinite s) (Infinite t) = NaN"
| "fdiv NaN y = NaN"
| "fdiv x NaN = NaN"

fun frem :: "number \<Rightarrow> number \<Rightarrow> number" where
  "frem (Finite a) (Finite b) =
     (if b = 0 then NaN else Finite (a - b * of_int (trunc (a / b))))"
| "frem (Finite a) (Infinite t) = Finite a"
| "frem (Infinite s) y = NaN"
| "frem NaN y = NaN"
| "frem x NaN = NaN"

fun fsqrt :: "number \<Rightarrow> number" where
  "fsqrt (Finite a) = (if a < 0 then NaN else rnd (sqrt a))"
| "fsqrt (Infinite s) = (if s then NaN else Infinite s)"
| "fsqrt NaN = NaN"

text \<open>\<^verbatim>\<open>x || 0\<close> for a number that may be missing: \<^verbatim>\<open>undefined\<close>, NaN and zero
  are falsy.\<close>

fun orZero :: "number option \<Rightarrow> number" where
  "orZero None = Finite 0"
| "orZero (Some NaN) = Finite 0"
| "orZero (Some v) = v"



section \<open>Data model of \<^verbatim>\<open>App.tsx\<close>\<close>

text \<open>
  An \<^verbatim>\<open>STLFile\<close> is a JavaScript object. The program compares such objects with
  \<^verbatim>\<open>===\<close>, that is by reference, so the record carries the object's address in the
  field \<open>ref\<close>; the remaining fields are the properties of the object. No object is
  ever mutated in place (every change builds a new object with a spread), so an address
  determines its properties. The optional properties \<^verbatim>\<open>visible?\<close> and
  \<^verbatim>\<open>color?\<close> are options, \<open>None\<close> being \<^verbatim>\<open>undefined\<close>.
\<close>

record STLFile =
  ref :: nat
  name :: string
  url :: string
  visible :: "bool option"
  color :: "string option"

datatype TransformationAxis =
  positionX | positionY | positionZ | rotationX | rotationY | rotationZ

text \<open>
  \<^verbatim>\<open>ModelTransformations\<close> has six optional numeric properties: a map from the axis
  to its value.
\<close>

type_synonym ModelTransformations = "TransformationAxis \<rightharpoonup> number"

datatype MeasurementUnit = mm | cm | inches

fun UNIT_TO_MM :: "MeasurementUnit \<Rightarrow> number" where
  "UNIT_TO_MM mm = num 1"
| "UNIT_TO_MM cm = num 10"
| "UNIT_TO_MM inches = num 25.4"

section \<open>Utilities\<close>

text \<open>
  An array index is an integer. The remainder operator \<^verbatim>\<open>%\<close> truncates the
  quotient towards zero, so the result has the sign of the dividend.
\<close>

definition js_rem_int :: "int \<Rightarrow> int \<Rightarrow> int" where
  "js_rem_int a b = (if 0 \<le> a then a mod \<bar>b\<bar> else - ((- a) mod \<bar>b\<bar>))"

definition AVAILABLE_COLORS :: "string list" where
  "AVAILABLE_COLORS =
     [''#858585'', ''#9a9a9a'', ''#b0b0b0'', ''#c5c5c5'', ''#dbdbdb'', ''#eeeeee'', ''#ffffff'']"

text \<open>Reading an array at an index outside of it gives \<^verbatim>\<open>undefined\<close>.\<close>

definition array_get :: "'a list \<Rightarrow> int \<Rightarrow> 'a option" where
  "array_get xs i = (if 0 \<le> i \<and> i < int (length xs) then Some (xs ! nat i) else None)"

definition getColorByIndex :: "int \<Rightarrow> string option" where
  "getColorByIndex index =
     array_get AVAILABLE_COLORS (js_rem_int index (int (length AVAILABLE_COLORS)))"

section \<open>State of \<^verbatim>\<open>STLUploader\<close>\<close>

text \<open>
  The four \<^verbatim>\<open>useState\<close> cells of the component, and \<open>nextRef\<close>, the next free
  object address.
\<close>

record AppState =
  loadedFiles :: "STLFile list"
  selectedFile :: "STLFile option"
  modelTransformations :: "string \<rightharpoonup> ModelTransformations"
  stlUnit :: MeasurementUnit
  nextRef :: nat

definition initialState :: AppState where
  "initialState =
     \<lparr>loadedFiles = [], selectedFile = None, modelTransformations = Map.empty,
      stlUnit = mm, nextRef = 0\<rparr>"

text \<open>
  \<^verbatim>\<open>handleFileUpload\<close>: the argument lists, for every chosen file, its name and the
  URL that \<^verbatim>\<open>URL.createObjectURL\<close> returned for it.
\<close>

definition handleFileUpload :: "(string \<times> string) list \<Rightarrow> AppState \<Rightarrow> AppState" where
  "handleFileUpload uploadedFiles s =
     (let newSTLFiles =
            map (\<lambda>(index, (fileName, fileUrl)).
                   (let globalIndex = int (length (loadedFiles s)) + int index
                    in \<lparr>ref = nextRef s + index, name = fileName, url = fileUrl,
                        visible = Some True, color = getColorByIndex globalIndex\<rparr>))
                (enumerate 0 uploadedFiles)
      in s\<lparr>loadedFiles := loadedFiles s @ newSTLFiles,
           nextRef := nextRef s + length uploadedFiles\<rparr>)"

text \<open>\<^verbatim>\<open>currentSelection === file ? null : file\<close>\<close>

definition handleFileSelection :: "STLFile \<Rightarrow> AppState \<Rightarrow> AppState" where
  "handleFileSelection file s =
     s\<lparr>selectedFile :=
          (case selectedFile s of
             None \<Rightarrow> Some file
           | Some currentSelection \<Rightarrow>
               if ref currentSelection = ref file then None else Some file)\<rparr>"

text \<open>
  \<^verbatim>\<open>previousFiles.map(f => f === file ? { ...f, visible: !f.visible } : f)\<close>: the
  spread allocates a new object, at address \<open>n\<close>; \<^verbatim>\<open>!f.visible\<close> is true for
  \<^verbatim>\<open>false\<close> and for \<^verbatim>\<open>undefined\<close>.
\<close>

fun toggleMap :: "STLFile \<Rightarrow> STLFile list \<Rightarrow> nat \<Rightarrow> STLFile list \<times> nat" where
  "toggleMap file [] n = ([], n)"
| "toggleMap file (f # fs) n =
     (if ref f = ref file
      then (case toggleMap file fs (Suc n) of
              (fs', n') \<Rightarrow> (f\<lparr>ref := n, visible := Some (visible f \<noteq> Some True)\<rparr> # fs', n'))
      else (case toggleMap file fs n of (fs', n') \<Rightarrow> (f # fs', n')))"

definition toggleFileVisibility :: "STLFile \<Rightarrow> AppState \<Rightarrow> AppState" where
  "toggleFileVisibility file s =
     (case toggleMap file (loadedFiles s) (nextRef s) of
        (fs', n') \<Rightarrow> s\<lparr>loadedFiles := fs', nextRef := n'\<rparr>)"

text \<open>\<^verbatim>\<open>transformations[fileName]?.[axis] || 0\<close>\<close>

definition readAxis ::
  "(string \<rightharpoonup> ModelTransformations) \<Rightarrow> string \<Rightarrow> TransformationAxis \<Rightarrow> number" where
  "readAxis transformations fileName axis =
     (case transformations fileName of
        None \<Rightarrow> orZero None
      | Some t \<Rightarrow> orZero (t axis))"

definition updateModelTransformation ::
  "string \<Rightarrow> TransformationAxis \<Rightarrow> number \<Rightarrow> AppState \<Rightarrow> AppState" where
  "updateModelTransformation fileName axis incrementValue s =
     (let previousTransformations = modelTransformations s;
          previousRecord =
            (case previousTransformations fileName of None \<Rightarrow> Map.empty | Some t \<Rightarrow> t)
      in s\<lparr>modelTransformations :=
             previousTransformations(fileName \<mapsto>
               previousRecord(axis \<mapsto>
                 fadd (readAxis previousTransformations fileName axis) incrementValue))\<rparr>)"

section \<open>Rendering: which models are drawn and which one is highlighted\<close>

text \<open>\<^verbatim>\<open>file.visible !== false\<close>, \<^verbatim>\<open>file === selectedFile\<close> and
  \<^verbatim>\<open>transformations[file.name] || {}\<close> of \<^verbatim>\<open>ModelsContainer\<close> and \<^verbatim>\<open>FileList\<close>.\<close>

definition isVisible :: "STLFile \<Rightarrow> bool" where
  "isVisible file = (visible file \<noteq> Some False)"

definition isSelected :: "AppState \<Rightarrow> STLFile \<Rightarrow> bool" where
  "isSelected s file =
     (case selectedFile s of None \<Rightarrow> False | Some sel \<Rightarrow> ref file = ref sel)"

definition transformationsOf :: "AppState \<Rightarrow> STLFile \<Rightarrow> ModelTransformations" where
  "transformationsOf s file =
     (case modelTransformations s (name file) of None \<Rightarrow> Map.empty | Some t \<Rightarrow> t)"

section \<open>\<^verbatim>\<open>TransformationPanel\<close>\<close>

definition radiansToDegrees :: "number \<Rightarrow> number" where
  "radiansToDegrees radians =
     (let degrees = fdiv (fmul radians (num 180)) Math_PI
      in frem (fadd (frem degrees (num 360)) (num 360)) (num 360))"

definition degreesToRadians :: "number \<Rightarrow> number" where
  "degreesToRadians degrees =
     (let normalized = frem (fadd (frem degrees (num 360)) (num 360)) (num 360)
      in fdiv (fmul normalized Math_PI) (num 180))"

definition updateRotation ::
  "STLFile \<Rightarrow> TransformationAxis \<Rightarrow> number \<Rightarrow> AppState \<Rightarrow> AppState" where
  "updateRotation selected axis degreesIncrement s =
     (let currentRadians = readAxis (modelTransformations s) (name selected) axis;
          currentDegrees = radiansToDegrees currentRadians;
          newDegrees = fadd currentDegrees degreesIncrement;
          normalizedRadians = degreesToRadians newDegrees
      in updateModelTransformation (name selected) axis
           (fsub normalizedRadians currentRadians) s)"

text \<open>The position buttons: \<^verbatim>\<open>onTransformationUpdate(selectedFile.name, axis, step / conversionFactor)\<close>,
  and the table's \<^verbatim>\<open>valueInSTLUnits * conversionFactor\<close>.\<close>

definition fileUnitsOfMM :: "MeasurementUnit \<Rightarrow> number \<Rightarrow> number" where
  "fileUnitsOfMM unit millimeters = fdiv millimeters (UNIT_TO_MM unit)"

definition movePosition ::
  "STLFile \<Rightarrow> TransformationAxis \<Rightarrow> number \<Rightarrow> AppState \<Rightarrow> AppState" where
  "movePosition selected axis stepMM s =
     updateModelTransformation (name selected) axis (fileUnitsOfMM (stlUnit s) stepMM) s"


section \<open>The user interface as a machine\<close>

text \<open>
  \<^verbatim>\<open>TransformationPanel\<close> owns two more \<^verbatim>\<open>useState\<close> cells. The panel is rendered
  only while a file is selected (\<^verbatim>\<open>selectedFile && ...\<close>), and a panel that is rendered
  again starts from its initial cells.
\<close>

datatype TransformMode = position | rotation

record PanelState =
  selectedAxis :: TransformationAxis
  transformMode :: TransformMode

definition initialPanel :: PanelState where
  "initialPanel = \<lparr>selectedAxis = positionX, transformMode = position\<rparr>"

definition POSITION_AXES :: "TransformationAxis list" where
  "POSITION_AXES = [positionX, positionY, positionZ]"

definition ROTATION_AXES :: "TransformationAxis list" where
  "ROTATION_AXES = [rotationX, rotationY, rotationZ]"

definition currentAxes :: "PanelState \<Rightarrow> TransformationAxis list" where
  "currentAxes p = (if transformMode p = position then POSITION_AXES else ROTATION_AXES)"

record UI =
  app :: AppState
  panel :: PanelState

definition initialUI :: UI where
  "initialUI = \<lparr>app = initialState, panel = initialPanel\<rparr>"

text \<open>
  What a user can do: choose files in the upload input, click the \<open>k\<close>-th entry of the
  file list or its eye button, and, in the panel, switch the mode, pick one of the
  offered axes, press one of the four position buttons or of the six rotation buttons, or
  choose the unit. An event that the page does not offer in the current state changes
  nothing.
\<close>

datatype MoveButton = Minus10mm | Minus1mm | Plus1mm | Plus10mm

fun moveStep :: "MoveButton \<Rightarrow> number" where
  "moveStep Minus10mm = num (- 10)"
| "moveStep Minus1mm = num (- 1)"
| "moveStep Plus1mm = num 1"
| "moveStep Plus10mm = num 10"

datatype RotateButton = Minus5 | Minus2 | Minus1 | Plus1 | Plus2 | Plus5

fun rotateStep :: "RotateButton \<Rightarrow> number" where
  "rotateStep Minus5 = num (- 5)"
| "rotateStep Minus2 = num (- 2)"
| "rotateStep Minus1 = num (- 1)"
| "rotateStep Plus1 = num 1"
| "rotateStep Plus2 = num 2"
| "rotateStep Plus5 = num 5"

datatype Event =
    Upload "(string \<times> string) list"
  | ClickFile nat
  | ClickEye nat
  | ClickPositionMode
  | ClickRotationMode
  | ClickAxis TransformationAxis
  | ClickMove MoveButton
  | ClickRotate RotateButton
  | ChangeUnit MeasurementUnit

definition unmountPanel :: "UI \<Rightarrow> UI" where
  "unmountPanel u = (if selectedFile (app u) = None then u\<lparr>panel := initialPanel\<rparr> else u)"

fun step :: "Event \<Rightarrow> UI \<Rightarrow> UI" where
  "step (Upload uploadedFiles) u = u\<lparr>app := handleFileUpload uploadedFiles (app u)\<rparr>"
| "step (ClickFile k) u =
     (if k < length (loadedFiles (app u))
      then unmountPanel (u\<lparr>app := handleFileSelection (loadedFiles (app u) ! k) (app u)\<rparr>)
      else u)"
| "step (ClickEye k) u =
     (if k < length (loadedFiles (app u))
      then u\<lparr>app := toggleFileVisibility (loadedFiles (app u) ! k) (app u)\<rparr>
      else u)"
| "step ClickPositionMode u =
     (case selectedFile (app u) of
        None \<Rightarrow> u
      | Some selected \<Rightarrow> u\<lparr>panel := \<lparr>selectedAxis = positionX, transformMode = position\<rparr>\<rparr>)"
| "step ClickRotationMode u =
     (case selectedFile (app u) of
        None \<Rightarrow> u
      | Some selected \<Rightarrow> u\<lparr>panel := \<lparr>selectedAxis = rotationX, transformMode = rotation\<rparr>\<rparr>)"
| "step (ClickAxis axis) u =
     (case selectedFile (app u) of
        None \<Rightarrow> u
      | Some selected \<Rightarrow>
          if axis \<in> set (currentAxes (panel u))
          then u\<lparr>panel := (panel u)\<lparr>selectedAxis := axis\<rparr>\<rparr> else u)"
| "step (ClickMove button) u =
     (case selectedFile (app u) of
        None \<Rightarrow> u
      | Some selected \<Rightarrow>
          if transformMode (panel u) = position
          then u\<lparr>app := movePosition selected (selectedAxis (panel u)) (moveStep button)
                           (app u)\<rparr>
          else u)"
| "step (ClickRotate button) u =
     (case selectedFile (app u) of
        None \<Rightarrow> u
      | Some selected \<Rightarrow>
          if transformMode (panel u) = rotation
          then u\<lparr>app := updateRotation selected (selectedAxis (panel u)) (rotateStep button)
                           (app u)\<rparr>
          else u)"
| "step (ChangeUnit unit) u =
     (case selectedFile (app u) of
        None \<Rightarrow> u
      | Some selected \<Rightarrow>
          if transformMode (panel u) = position
          then u\<lparr>app := (app u)\<lparr>stlUnit := unit\<rparr>\<rparr> else u)"

fun run :: "Event list \<Rightarrow> UI \<Rightarrow> UI" where
  "run [] u = u"
| "run (e # es) u = run es (step e u)"

section \<open>\<^verbatim>\<open>ModelsContainer\<close>: framing the scene\<close>

text \<open>
  Vectors are triples. \<open>vlength\<close> is \<^verbatim>\<open>Vector3.length()\<close>. The bounding box comes
  from three.js: \<open>Box3\<close> holds what \<^verbatim>\<open>getCenter\<close> and \<^verbatim>\<open>getSize\<close> report for
  the box that \<^verbatim>\<open>setFromObject(groupRef.current)\<close> computed.
\<close>

type_synonym Vector3 = "number \<times> number \<times> number"

definition vlength :: "Vector3 \<Rightarrow> number" where
  "vlength v =
     (case v of (a, b, c) \<Rightarrow> fsqrt (fadd (fadd (fmul a a) (fmul b b)) (fmul c c)))"

definition vadd :: "Vector3 \<Rightarrow> Vector3 \<Rightarrow> Vector3" where
  "vadd v w =
     (case v of (a, b, c) \<Rightarrow> case w of (a', b', c') \<Rightarrow> (fadd a a', fadd b b', fadd c c'))"

definition vneg :: "Vector3 \<Rightarrow> Vector3" where
  "vneg v = (case v of (a, b, c) \<Rightarrow> (fneg a, fneg b, fneg c))"

record Box3 =
  boxCenter :: Vector3
  boxSize :: Vector3

text \<open>
  What the effect reads and writes: whether \<^verbatim>\<open>groupRef.current\<close> is set, the position
  of the group, the position of the camera and the point it looks at, and
  \<^verbatim>\<open>previousFileCountRef.current\<close>. The field \<open>boxesComputed\<close> counts the calls
  of \<^verbatim>\<open>setFromObject\<close>, so that computing a bounding box is an effect one can see.
\<close>

record Scene =
  groupMounted :: bool
  groupPosition :: Vector3
  cameraPos :: Vector3
  cameraTarget :: Vector3
  previousFileCount :: nat
  boxesComputed :: nat

definition initialScene :: Scene where
  "initialScene =
     \<lparr>groupMounted = True, groupPosition = (num 0, num 0, num 0),
      cameraPos = (num 0, num 0, num 10), cameraTarget = (num 0, num 0, num 0),
      previousFileCount = 0, boxesComputed = 0\<rparr>"

record Reframe =
  recenterOffset :: Vector3
  cameraPosition :: Vector3
  cameraLookAt :: Vector3

text \<open>
  The body of the \<^verbatim>\<open>useEffect\<close>. It returns the scene it leaves behind and the
  reframe instruction it carried out, if any. React runs the body after the first
  render and after every render in which \<^verbatim>\<open>files.length\<close> (or the camera object)
  differs from the previous render.
\<close>

definition framingEffect :: "STLFile list \<Rightarrow> Box3 \<Rightarrow> Scene \<Rightarrow> Scene \<times> Reframe option" where
  "framingEffect files boundingBox sc =
     (let currentFileCount = length files
      in if groupMounted sc \<and> 0 < currentFileCount \<and> currentFileCount \<noteq> previousFileCount sc
         then (let center = boxCenter boundingBox;
                   size = boxSize boundingBox;
                   cameraDistance = fmul (vlength size) (num 1.5);
                   newCameraPosition = vadd center (num 0, num 0, cameraDistance)
               in (sc\<lparr>groupPosition := vneg center, cameraPos := newCameraPosition,
                      cameraTarget := center, previousFileCount := currentFileCount,
                      boxesComputed := Suc (boxesComputed sc)\<rparr>,
                   Some \<lparr>recenterOffset = vneg center, cameraPosition = newCameraPosition,
                         cameraLookAt = center\<rparr>))
         else (sc, None))"

text \<open>The models that are drawn: \<^verbatim>\<open>files.filter(file => file.visible !== false)\<close>.\<close>

definition visibleCount :: "STLFile list \<Rightarrow> nat" where
  "visibleCount files = length (filter isVisible files)"

section \<open>Concrete runs\<close>

text \<open>Two files of the same name, chosen in one upload.\<close>

definition partA :: STLFile where
  "partA = \<lparr>ref = 0, name = ''part.stl'', url = ''blob:1'', visible = Some True,
            color = Some ''#858585''\<rparr>"

definition partB :: STLFile where
  "partB = \<lparr>ref = 1, name = ''part.stl'', url = ''blob:2'', visible = Some True,
            color = Some ''#9a9a9a''\<rparr>"

definition twoParts :: AppState where
  "twoParts = handleFileUpload [(''part.stl'', ''blob:1''), (''part.stl'', ''blob:2'')] initialState"

text \<open>One file is uploaded and selected, then its eye button is pressed.\<close>

definition selectedUI :: UI where
  "selectedUI = run [Upload [(''a.stl'', ''blob:a'')], ClickFile 0] initialUI"

definition hiddenUI :: UI where
  "hiddenUI = step (ClickEye 0) selectedUI"

text \<open>Two files are uploaded and framed; then the second one is hidden.\<close>

definition twoLoaded :: UI where
  "twoLoaded = run [Upload [(''a.stl'', ''blob:a''), (''b.stl'', ''blob:b'')]] initialUI"

text \<open>
  One file is uploaded and selected; in rotation mode it is turned by \<open>-2\<close> degrees,
  and then by \<open>+5\<close> degrees.
\<close>

definition turnedOnce :: UI where
  "turnedOnce =
     run [Upload [(''part.stl'', ''blob:1'')], ClickFile 0, ClickRotationMode, ClickRotate Minus2]
       initialUI"

definition turnedTwice :: UI where
  "turnedTwice = step (ClickRotate Plus5) turnedOnce"

text \<open>One file is uploaded, selected and hidden, and then clicked again in the list.\<close>

definition clickedAgain :: UI where
  "clickedAgain =
     run [Upload [(''a.stl'', ''blob:a'')], ClickFile 0, ClickEye 0, ClickFile 0] initialUI"

definition unitBox :: Box3 where
  "unitBox = \<lparr>boxCenter = (num 1, num 2, num 3), boxSize = (num 0, num 3, num 4)\<rparr>"

definition framedScene :: Scene where
  "framedScene = fst (framingEffect (loadedFiles (app twoLoaded)) unitBox initialScene)"

definition oneHidden :: UI where
  "oneHidden = step (ClickEye 1) twoLoaded"

section \<open>Invariants of the machine\<close>

text \<open>
  The objects in the list of loaded files are pairwise different objects, all allocated
  below \<open>nextRef\<close>; and the colours follow the palette in list order.
\<close>

definition wellFormed :: "AppState \<Rightarrow> bool" where
  "wellFormed s =
     (distinct (map ref (loadedFiles s)) \<and> list_all (\<lambda>f. ref f < nextRef s) (loadedFiles s))"

definition paletteOrder :: "STLFile list \<Rightarrow> bool" where
  "paletteOrder files =
     (map color files = map (\<lambda>k. getColorByIndex (int k)) [0 ..< length files])"

section \<open>The colour palette\<close>

lemma js_rem_int_nonneg: "0 \<le> a \<Longrightarrow> js_rem_int a 7 = a mod 7"
  by (simp add: js_rem_int_def)

lemma getColorByIndex_nonneg:
  "0 \<le> index \<Longrightarrow> getColorByIndex index = Some (AVAILABLE_COLORS ! nat (index mod 7))"
  by (simp add: getColorByIndex_def array_get_def AVAILABLE_COLORS_def js_rem_int_nonneg)

text \<open>A negative index would leave the array: the remainder keeps the sign.\<close>

lemma getColorByIndex_negative: "getColorByIndex (- 1) = None"
  by (simp add: getColorByIndex_def array_get_def AVAILABLE_COLORS_def js_rem_int_def)

lemma palette_nth:
  assumes "k < 7"
  shows "AVAILABLE_COLORS ! k \<in>
    {''#858585'', ''#9a9a9a'', ''#b0b0b0'', ''#c5c5c5'', ''#dbdbdb'', ''#eeeeee'', ''#ffffff''}"
proof -
  have "AVAILABLE_COLORS ! k \<in> set AVAILABLE_COLORS"
    using assms by (intro nth_mem) (simp add: AVAILABLE_COLORS_def)
  then show ?thesis by (simp add: AVAILABLE_COLORS_def)
qed

text \<open>
  Claim C10. For every nonnegative integer index, \<open>getColorByIndex\<close> returns a defined
  value, and that value is one of the seven strings of the palette.
\<close>

theorem getColorByIndex_in_palette:
  "0 \<le> index \<Longrightarrow>
   \<exists>c \<in> {''#858585'', ''#9a9a9a'', ''#b0b0b0'', ''#c5c5c5'', ''#dbdbdb'', ''#eeeeee'',
          ''#ffffff''}. getColorByIndex index = Some c"
proof -
  assume nonneg: "0 \<le> index"
  have "nat (index mod 7) < 7" by simp
  from palette_nth [OF this] getColorByIndex_nonneg [OF nonneg] show ?thesis by blast
qed

theorem getColorByIndex_in_palette_witness:
  "(0::int) \<le> 9 \<and>
   (\<exists>c \<in> {''#858585'', ''#9a9a9a'', ''#b0b0b0'', ''#c5c5c5'', ''#dbdbdb'', ''#eeeeee'',
          ''#ffffff''}. getColorByIndex 9 = Some c)"
  using getColorByIndex_in_palette [of 9] by simp

section \<open>Operations that leave the list of files alone\<close>

lemma loadedFiles_handleFileSelection [simp]:
  "loadedFiles (handleFileSelection f s) = loadedFiles s"
  by (simp add: handleFileSelection_def)

lemma nextRef_handleFileSelection [simp]:
  "nextRef (handleFileSelection f s) = nextRef s"
  by (simp add: handleFileSelection_def)

lemma loadedFiles_updateModelTransformation [simp]:
  "loadedFiles (updateModelTransformation n a d s) = loadedFiles s"
  by (simp add: updateModelTransformation_def Let_def)

lemma nextRef_updateModelTransformation [simp]:
  "nextRef (updateModelTransformation n a d s) = nextRef s"
  by (simp add: updateModelTransformation_def Let_def)

lemma selectedFile_updateModelTransformation [simp]:
  "selectedFile (updateModelTransformation n a d s) = selectedFile s"
  by (simp add: updateModelTransformation_def Let_def)

lemma loadedFiles_updateRotation [simp]:
  "loadedFiles (updateRotation f a d s) = loadedFiles s"
  by (simp add: updateRotation_def Let_def)

lemma nextRef_updateRotation [simp]:
  "nextRef (updateRotation f a d s) = nextRef s"
  by (simp add: updateRotation_def Let_def)

lemma selectedFile_updateRotation [simp]:
  "selectedFile (updateRotation f a d s) = selectedFile s"
  by (simp add: updateRotation_def Let_def)

lemma loadedFiles_movePosition [simp]:
  "loadedFiles (movePosition f a d s) = loadedFiles s"
  by (simp add: movePosition_def)

lemma nextRef_movePosition [simp]:
  "nextRef (movePosition f a d s) = nextRef s"
  by (simp add: movePosition_def)

lemma selectedFile_movePosition [simp]:
  "selectedFile (movePosition f a d s) = selectedFile s"
  by (simp add: movePosition_def)

lemma app_unmountPanel [simp]: "app (unmountPanel u) = app u"
  by (simp add: unmountPanel_def)

section \<open>The visibility toggle\<close>

lemma toggleMap_length: "length (fst (toggleMap tgt fs n)) = length fs"
  by (induction fs arbitrary: n) (simp_all add: case_prod_unfold)

lemma toggleMap_color: "map color (fst (toggleMap tgt fs n)) = map color fs"
  by (induction fs arbitrary: n) (simp_all add: case_prod_unfold)

lemma toggleMap_name: "map name (fst (toggleMap tgt fs n)) = map name fs"
  by (induction fs arbitrary: n) (simp_all add: case_prod_unfold)

lemma toggleMap_url: "map url (fst (toggleMap tgt fs n)) = map url fs"
  by (induction fs arbitrary: n) (simp_all add: case_prod_unfold)

lemma toggleMap_mono: "n \<le> snd (toggleMap tgt fs n)"
proof (induction fs arbitrary: n)
  case Nil
  show ?case by simp
next
  case (Cons f fs)
  have "n \<le> snd (toggleMap tgt fs n)" "Suc n \<le> snd (toggleMap tgt fs (Suc n))"
    using Cons.IH by blast+
  then show ?case by (simp add: case_prod_unfold)
qed

lemma toggleMap_refs:
  "set (map ref (fst (toggleMap tgt fs n)))
     \<subseteq> (set (map ref fs) - {ref tgt}) \<union> {n ..< snd (toggleMap tgt fs n)}"
proof (induction fs arbitrary: n)
  case Nil
  show ?case by simp
next
  case (Cons f fs)
  show ?case
  proof (cases "ref f = ref tgt")
    case True
    have "n < snd (toggleMap tgt fs (Suc n))"
      using toggleMap_mono [of "Suc n" tgt fs] by simp
    with Cons.IH [of "Suc n"] True show ?thesis
      by (auto simp: case_prod_unfold)
  next
    case False
    with Cons.IH [of n] show ?thesis
      by (auto simp: case_prod_unfold)
  qed
qed

lemma toggleMap_distinct:
  "distinct (map ref fs) \<Longrightarrow> \<forall>f \<in> set fs. ref f < n \<Longrightarrow>
   distinct (map ref (fst (toggleMap tgt fs n)))"
proof (induction fs arbitrary: n)
  case Nil
  show ?case by simp
next
  case (Cons f fs)
  show ?case
  proof (cases "ref f = ref tgt")
    case True
    have d: "distinct (map ref (fst (toggleMap tgt fs (Suc n))))"
      using Cons.IH [of "Suc n"] Cons.prems by (auto simp: less_Suc_eq)
    have "r \<noteq> n" if "r \<in> set (map ref (fst (toggleMap tgt fs (Suc n))))" for r
    proof -
      from that toggleMap_refs [of tgt fs "Suc n"]
      have "r \<in> set (map ref fs) \<or> Suc n \<le> r" by auto
      with Cons.prems show ?thesis by auto
    qed
    then have "n \<notin> set (map ref (fst (toggleMap tgt fs (Suc n))))" by blast
    with d True show ?thesis by (auto simp: case_prod_unfold)
  next
    case False
    have d: "distinct (map ref (fst (toggleMap tgt fs n)))"
      using Cons.IH [of n] Cons.prems by auto
    have "r \<noteq> ref f" if "r \<in> set (map ref (fst (toggleMap tgt fs n)))" for r
    proof -
      from that toggleMap_refs [of tgt fs n]
      have "r \<in> set (map ref fs) \<or> n \<le> r" by auto
      with Cons.prems show ?thesis by auto
    qed
    then have "ref f \<notin> set (map ref (fst (toggleMap tgt fs n)))" by blast
    with d False show ?thesis by (auto simp: case_prod_unfold)
  qed
qed

lemma toggleMap_bound:
  "\<forall>f \<in> set fs. ref f < n \<Longrightarrow> g \<in> set (fst (toggleMap tgt fs n)) \<Longrightarrow>
   ref g < snd (toggleMap tgt fs n)"
  using toggleMap_refs [of tgt fs n] toggleMap_mono [of n tgt fs]
  by (fastforce simp: subset_iff)

lemma loadedFiles_toggleFileVisibility:
  "loadedFiles (toggleFileVisibility f s) = fst (toggleMap f (loadedFiles s) (nextRef s))"
  by (simp add: toggleFileVisibility_def case_prod_unfold)

lemma nextRef_toggleFileVisibility:
  "nextRef (toggleFileVisibility f s) = snd (toggleMap f (loadedFiles s) (nextRef s))"
  by (simp add: toggleFileVisibility_def case_prod_unfold)

lemma selectedFile_toggleFileVisibility [simp]:
  "selectedFile (toggleFileVisibility f s) = selectedFile s"
  by (simp add: toggleFileVisibility_def case_prod_unfold)

lemma modelTransformations_toggleFileVisibility [simp]:
  "modelTransformations (toggleFileVisibility f s) = modelTransformations s"
  by (simp add: toggleFileVisibility_def case_prod_unfold)

section \<open>Uploads\<close>

lemma map_enumerate_index:
  "map (\<lambda>(i, x). g i) (enumerate n xs) = map g [n ..< n + length xs]"
  by (induction xs arbitrary: n) (simp_all add: upt_rec)

lemma upload_refs:
  "map ref (loadedFiles (handleFileUpload up s)) =
   map ref (loadedFiles s) @ [nextRef s ..< nextRef s + length up]"
proof -
  have "map (\<lambda>(i, x). nextRef s + i) (enumerate 0 up) = map (\<lambda>i. nextRef s + i) [0 ..< length up]"
    using map_enumerate_index [of "\<lambda>i. nextRef s + i" 0 up] by simp
  also have "\<dots> = [nextRef s ..< nextRef s + length up]"
    using map_add_upt [of "nextRef s" "length up"] by (simp add: add.commute)
  finally show ?thesis
    by (simp add: handleFileUpload_def Let_def o_def case_prod_unfold)
qed

lemma upload_colors:
  "map color (loadedFiles (handleFileUpload up s)) =
   map color (loadedFiles s) @
   map (\<lambda>i. getColorByIndex (int (length (loadedFiles s)) + int i)) [0 ..< length up]"
  using map_enumerate_index [of "\<lambda>i. getColorByIndex (int (length (loadedFiles s)) + int i)" 0 up]
  by (simp add: handleFileUpload_def Let_def o_def case_prod_unfold)

lemma upload_prefix:
  "take (length (loadedFiles s)) (loadedFiles (handleFileUpload up s)) = loadedFiles s"
  by (simp add: handleFileUpload_def Let_def)

lemma upload_length:
  "length (loadedFiles (handleFileUpload up s)) = length (loadedFiles s) + length up"
  by (simp add: handleFileUpload_def Let_def)

lemma nextRef_upload: "nextRef (handleFileUpload up s) = nextRef s + length up"
  by (simp add: handleFileUpload_def Let_def)

section \<open>Invariants\<close>

lemma wellFormed_upload: "wellFormed s \<Longrightarrow> wellFormed (handleFileUpload up s)"
proof -
  assume wf: "wellFormed s"
  let ?old = "map ref (loadedFiles s)"
  let ?new = "[nextRef s ..< nextRef s + length up]"
  from wf have below: "r < nextRef s" if "r \<in> set ?old" for r
    using that by (auto simp: wellFormed_def list_all_iff)
  then have "set ?old \<inter> set ?new = {}" by fastforce
  moreover from wf have "distinct ?old" by (simp add: wellFormed_def)
  ultimately have d: "distinct (?old @ ?new)" by simp
  have "r < nextRef s + length up" if "r \<in> set (?old @ ?new)" for r
    using that below by fastforce
  then have "list_all (\<lambda>f. ref f < nextRef s + length up) (loadedFiles (handleFileUpload up s))"
    unfolding list_all_iff upload_refs [symmetric] by simp
  with d show ?thesis by (simp add: wellFormed_def nextRef_upload upload_refs)
qed

lemma wellFormed_toggle: "wellFormed s \<Longrightarrow> wellFormed (toggleFileVisibility f s)"
proof -
  assume wf: "wellFormed s"
  then have below: "\<forall>g \<in> set (loadedFiles s). ref g < nextRef s"
    by (simp add: wellFormed_def list_all_iff)
  from wf have "distinct (map ref (loadedFiles s))" by (simp add: wellFormed_def)
  from toggleMap_distinct [OF this below]
  have d: "distinct (map ref (fst (toggleMap f (loadedFiles s) (nextRef s))))" .
  have "list_all (\<lambda>g. ref g < snd (toggleMap f (loadedFiles s) (nextRef s)))
          (fst (toggleMap f (loadedFiles s) (nextRef s)))"
    unfolding list_all_iff using toggleMap_bound [OF below] by blast
  with d show ?thesis
    by (simp add: wellFormed_def loadedFiles_toggleFileVisibility nextRef_toggleFileVisibility)
qed

lemma wellFormed_step: "wellFormed (app u) \<Longrightarrow> wellFormed (app (step e u))"
proof (cases e)
  case (Upload up)
  assume "wellFormed (app u)"
  with Upload show ?thesis by (simp add: wellFormed_upload)
next
  case (ClickEye k)
  assume "wellFormed (app u)"
  with ClickEye show ?thesis by (simp add: wellFormed_toggle)
qed (simp_all add: wellFormed_def split: option.splits)

lemma wellFormed_run: "wellFormed (app u) \<Longrightarrow> wellFormed (app (run es u))"
  by (induction es arbitrary: u) (simp_all add: wellFormed_step)

lemma wellFormed_initial: "wellFormed (app initialUI)"
  by (simp add: wellFormed_def initialUI_def initialState_def)

lemma paletteOrder_upload:
  assumes "paletteOrder (loadedFiles s)"
  shows "paletteOrder (loadedFiles (handleFileUpload up s))"
proof -
  let ?n = "length (loadedFiles s)"
  have "[?n ..< ?n + length up] = map (\<lambda>i. i + ?n) [0 ..< length up]"
    by (simp add: map_add_upt add.commute)
  then have "map (\<lambda>k. getColorByIndex (int k)) [?n ..< ?n + length up] =
        map ((\<lambda>k. getColorByIndex (int k)) \<circ> (\<lambda>i. i + ?n)) [0 ..< length up]"
    by simp
  then have "map (\<lambda>k. getColorByIndex (int k)) [?n ..< ?n + length up] =
        map (\<lambda>i. getColorByIndex (int ?n + int i)) [0 ..< length up]"
    by (simp add: o_def add.commute)
  moreover have "[0 ..< ?n + length up] = [0 ..< ?n] @ [?n ..< ?n + length up]"
    using upt_add_eq_append [of 0 ?n "length up"] by simp
  ultimately show ?thesis
    using assms unfolding paletteOrder_def upload_colors upload_length by simp
qed

lemma paletteOrder_step:
  "paletteOrder (loadedFiles (app u)) \<Longrightarrow> paletteOrder (loadedFiles (app (step e u)))"
proof (cases e)
  case (Upload up)
  assume "paletteOrder (loadedFiles (app u))"
  with Upload show ?thesis by (simp add: paletteOrder_upload)
next
  case (ClickEye k)
  assume "paletteOrder (loadedFiles (app u))"
  with ClickEye show ?thesis
    by (simp add: paletteOrder_def loadedFiles_toggleFileVisibility toggleMap_color toggleMap_length)
qed (auto split: option.splits)

lemma paletteOrder_run:
  "paletteOrder (loadedFiles (app u)) \<Longrightarrow> paletteOrder (loadedFiles (app (run es u)))"
  by (induction es arbitrary: u) (simp_all add: paletteOrder_step)

lemma toggleMap_url_color:
  "map (\<lambda>f. (url f, color f)) (fst (toggleMap tgt fs n)) = map (\<lambda>f. (url f, color f)) fs"
  by (induction fs arbitrary: n) (simp_all add: case_prod_unfold)

lemma toggleMap_visible:
  "map visible (fst (toggleMap tgt fs n)) =
   map (\<lambda>g. if ref g = ref tgt then Some (visible g \<noteq> Some True) else visible g) fs"
  by (induction fs arbitrary: n) (simp_all add: case_prod_unfold)

lemma step_keeps_models:
  "map (\<lambda>f. (url f, color f)) (take (length (loadedFiles (app u))) (loadedFiles (app (step e u)))) =
   map (\<lambda>f. (url f, color f)) (loadedFiles (app u))"
proof (cases e)
  case (Upload up)
  then show ?thesis by (simp add: upload_prefix)
next
  case (ClickEye k)
  then show ?thesis
    by (simp add: loadedFiles_toggleFileVisibility toggleMap_url_color toggleMap_length)
qed (simp_all split: option.splits)

lemma paletteOrder_initial: "paletteOrder (loadedFiles (app initialUI))"
  by (simp add: paletteOrder_def initialUI_def initialState_def)

text \<open>
  Claim C8. In every state the machine can reach, the model at position \<open>k\<close> of the
  list (the one that was added when \<open>k\<close> models were already loaded) carries the colour
  at index \<open>k mod 7\<close> of the palette of seven greys, so that the eighth model has the
  colour of the first; and no event changes the colour of a model that is already
  loaded: whatever the event, the models loaded before it are still at their positions,
  under their URLs and with their colours.
\<close>

theorem palette_cycle:
  "map color (loadedFiles (app (run es initialUI))) =
     map (\<lambda>k. Some ([''#858585'', ''#9a9a9a'', ''#b0b0b0'', ''#c5c5c5'', ''#dbdbdb'',
                       ''#eeeeee'', ''#ffffff''] ! (k mod 7)))
       [0 ..< length (loadedFiles (app (run es initialUI)))]
   \<and> getColorByIndex 0 = Some ''#858585'' \<and> getColorByIndex 7 = Some ''#858585''
   \<and> map (\<lambda>f. (url f, color f))
        (take (length (loadedFiles (app u))) (loadedFiles (app (step e u)))) =
      map (\<lambda>f. (url f, color f)) (loadedFiles (app u))"
proof (intro conjI)
  have "getColorByIndex (int k) =
        Some ([''#858585'', ''#9a9a9a'', ''#b0b0b0'', ''#c5c5c5'', ''#dbdbdb'',
               ''#eeeeee'', ''#ffffff''] ! (k mod 7))" for k
  proof -
    have "nat (int k mod 7) = k mod 7" by (simp add: nat_mod_distrib)
    then show ?thesis
      using getColorByIndex_nonneg [of "int k"] by (simp add: AVAILABLE_COLORS_def)
  qed
  then show "map color (loadedFiles (app (run es initialUI))) =
     map (\<lambda>k. Some ([''#858585'', ''#9a9a9a'', ''#b0b0b0'', ''#c5c5c5'', ''#dbdbdb'',
                       ''#eeeeee'', ''#ffffff''] ! (k mod 7)))
       [0 ..< length (loadedFiles (app (run es initialUI)))]"
    using paletteOrder_run [OF paletteOrder_initial, of es] by (simp add: paletteOrder_def)
  show "getColorByIndex 0 = Some ''#858585''"
    by (simp add: getColorByIndex_nonneg AVAILABLE_COLORS_def)
  show "getColorByIndex 7 = Some ''#858585''"
    by (simp add: getColorByIndex_nonneg AVAILABLE_COLORS_def)
  show "map (\<lambda>f. (url f, color f))
        (take (length (loadedFiles (app u))) (loadedFiles (app (step e u)))) =
      map (\<lambda>f. (url f, color f)) (loadedFiles (app u))"
    by (rule step_keeps_models)
qed

text \<open>
  Eight models, loaded in two uploads with a visibility toggle in between: the colours
  run through the palette once, and the eighth is the first again.
\<close>

theorem palette_cycle_witness:
  "map color (loadedFiles (app (run
      [Upload [(''1'', ''u1''), (''2'', ''u2''), (''3'', ''u3'')], ClickEye 0,
       Upload [(''4'', ''u4''), (''5'', ''u5''), (''6'', ''u6''), (''7'', ''u7''), (''8'', ''u8'')]]
      initialUI))) =
   [Some ''#858585'', Some ''#9a9a9a'', Some ''#b0b0b0'', Some ''#c5c5c5'', Some ''#dbdbdb'',
    Some ''#eeeeee'', Some ''#ffffff'', Some ''#858585'']"
proof -
  let ?es = "[Upload [(''1'', ''u1''), (''2'', ''u2''), (''3'', ''u3'')], ClickEye 0,
       Upload [(''4'', ''u4''), (''5'', ''u5''), (''6'', ''u6''), (''7'', ''u7''), (''8'', ''u8'')]]"
  have len: "length (loadedFiles (app (run ?es initialUI))) = 8"
    by (simp add: upload_length loadedFiles_toggleFileVisibility toggleMap_length
        initialUI_def initialState_def)
  have "[0 ..< 8] = [0, 1, 2, 3, 4, 5, 6, 7::nat]" by (simp add: upt_rec)
  with palette_cycle [of ?es] len show ?thesis by simp
qed

section \<open>Selection\<close>

lemma filter_ref_distinct:
  "distinct (map ref fs) \<Longrightarrow> length (filter (\<lambda>f. ref f = r) fs) \<le> 1"
proof (induction fs)
  case Nil
  show ?case by simp
next
  case (Cons f fs)
  show ?case
  proof (cases "ref f = r")
    case True
    with Cons.prems have "r \<notin> ref ` set fs" by simp
    then have "\<forall>g \<in> set fs. ref g \<noteq> r" by blast
    then have "filter (\<lambda>f. ref f = r) fs = []" by (simp add: filter_empty_conv)
    with True show ?thesis by simp
  next
    case False
    with Cons show ?thesis by simp
  qed
qed

lemma at_most_one_selected:
  "wellFormed s \<Longrightarrow> length (filter (isSelected s) (loadedFiles s)) \<le> 1"
proof (cases "selectedFile s")
  case None
  then have "isSelected s = (\<lambda>f. False)" by (simp add: isSelected_def fun_eq_iff)
  then show ?thesis by simp
next
  case (Some sel)
  assume "wellFormed s"
  then have "distinct (map ref (loadedFiles s))" by (simp add: wellFormed_def)
  from filter_ref_distinct [OF this, of "ref sel"] Some show ?thesis
    by (simp add: isSelected_def [abs_def])
qed

text \<open>
  What \<open>handleFileSelection\<close> does, object by object: it clears the selection when
  its argument is the selected object and selects the argument otherwise, so two calls
  in a row with an object that was not selected leave nothing selected. In every state the
  machine can reach, at most one entry of the list is the selected object.
\<close>

lemma selection_by_reference:
  "selectedFile (handleFileSelection f s) = (if isSelected s f then None else Some f)
   \<and> selectedFile (handleFileSelection f (handleFileSelection f s)) =
       (if isSelected s f then Some f else None)
   \<and> length (filter (isSelected (app (run es initialUI))) (loadedFiles (app (run es initialUI)))) \<le> 1"
proof (intro conjI)
  show "selectedFile (handleFileSelection f s) = (if isSelected s f then None else Some f)"
    by (simp add: handleFileSelection_def isSelected_def split: option.splits)
  show "selectedFile (handleFileSelection f (handleFileSelection f s)) =
       (if isSelected s f then Some f else None)"
    by (simp add: handleFileSelection_def isSelected_def split: option.splits)
  show "length (filter (isSelected (app (run es initialUI))) (loadedFiles (app (run es initialUI)))) \<le> 1"
    by (rule at_most_one_selected [OF wellFormed_run [OF wellFormed_initial]])
qed

lemmas eval_defs = initialUI_def initialState_def initialPanel_def handleFileUpload_def
  handleFileSelection_def toggleFileVisibility_def unmountPanel_def isSelected_def
  getColorByIndex_def array_get_def AVAILABLE_COLORS_def js_rem_int_def enumerate_eq_zip

lemma selectedUI_app:
  "app selectedUI =
     \<lparr>loadedFiles = [\<lparr>ref = 0, name = ''a.stl'', url = ''blob:a'', visible = Some True,
                      color = Some ''#858585''\<rparr>],
      selectedFile = Some \<lparr>ref = 0, name = ''a.stl'', url = ''blob:a'', visible = Some True,
                      color = Some ''#858585''\<rparr>,
      modelTransformations = Map.empty, stlUnit = mm, nextRef = 1\<rparr>"
  by (simp add: selectedUI_def eval_defs)

lemma hiddenUI_app:
  "app hiddenUI =
     \<lparr>loadedFiles = [\<lparr>ref = 1, name = ''a.stl'', url = ''blob:a'', visible = Some False,
                      color = Some ''#858585''\<rparr>],
      selectedFile = Some \<lparr>ref = 0, name = ''a.stl'', url = ''blob:a'', visible = Some True,
                      color = Some ''#858585''\<rparr>,
      modelTransformations = Map.empty, stlUnit = mm, nextRef = 2\<rparr>"
  by (simp add: hiddenUI_def selectedUI_app eval_defs)

text \<open>
  What the visibility toggle does keep: the transform store and the \<open>selectedFile\<close>
  cell are untouched, every model stays at its position under its URL, and only the
  flag of the toggled object changes.
\<close>

lemma toggle_frame:
  "modelTransformations (toggleFileVisibility f s) = modelTransformations s
   \<and> selectedFile (toggleFileVisibility f s) = selectedFile s
   \<and> map url (loadedFiles (toggleFileVisibility f s)) = map url (loadedFiles s)
   \<and> map visible (loadedFiles (toggleFileVisibility f s)) =
       map (\<lambda>g. if ref g = ref f then Some (visible g \<noteq> Some True) else visible g)
         (loadedFiles s)"
  by (simp add: loadedFiles_toggleFileVisibility toggleMap_url toggleMap_visible)

text \<open>
  Claim C3, at the run \<open>hiddenUI\<close>: one file is uploaded and selected, and its entry
  in the list is the selected object. Pressing its eye button leaves \<open>selectedFile\<close>
  as it was, but the list now holds a copy of the object, so that no entry of the list
  is the selected object any more: the file list and the viewport, which both test
  \<^verbatim>\<open>file === selectedFile\<close>, show no model as selected, while the panel is still open.
\<close>

theorem toggle_drops_highlight:
  "filter (isSelected (app selectedUI)) (loadedFiles (app selectedUI)) = loadedFiles (app selectedUI)
   \<and> length (loadedFiles (app selectedUI)) = 1
   \<and> selectedFile (app hiddenUI) = selectedFile (app selectedUI)
   \<and> selectedFile (app hiddenUI) \<noteq> None
   \<and> map url (loadedFiles (app hiddenUI)) = map url (loadedFiles (app selectedUI))
   \<and> filter (isSelected (app hiddenUI)) (loadedFiles (app hiddenUI)) = []"
  by (simp add: selectedUI_app hiddenUI_app isSelected_def)

text \<open>
  Claim C9, at the run \<open>clickedAgain\<close>: one file is uploaded, selected and hidden, so
  that it is the selected model (\<open>selectedFile\<close> holds it and the panel is open), and
  then its entry in the list is clicked once more. The entry is the copy that the toggle
  made, not the selected object, and the click selects the copy instead of clearing the
  selection: the model is still selected.
\<close>

theorem click_on_selected_model_keeps_it:
  "selectedFile (app hiddenUI) =
     Some \<lparr>ref = 0, name = ''a.stl'', url = ''blob:a'', visible = Some True,
           color = Some ''#858585''\<rparr>
   \<and> loadedFiles (app hiddenUI) =
       [\<lparr>ref = 1, name = ''a.stl'', url = ''blob:a'', visible = Some False,
         color = Some ''#858585''\<rparr>]
   \<and> clickedAgain = step (ClickFile 0) hiddenUI
   \<and> selectedFile (app clickedAgain) =
       Some \<lparr>ref = 1, name = ''a.stl'', url = ''blob:a'', visible = Some False,
             color = Some ''#858585''\<rparr>"
proof -
  have again: "clickedAgain = step (ClickFile 0) hiddenUI"
    by (simp add: clickedAgain_def hiddenUI_def selectedUI_def)
  have "selectedFile (app (step (ClickFile 0) hiddenUI)) =
       Some \<lparr>ref = 1, name = ''a.stl'', url = ''blob:a'', visible = Some False,
             color = Some ''#858585''\<rparr>"
    by (simp add: hiddenUI_app handleFileSelection_def)
  with again show ?thesis by (simp add: hiddenUI_app)
qed

section \<open>Rounding\<close>

text \<open>
  \<open>round_even\<close> is within one half of its argument, and it is the integer that is
  nearer than one half. \<open>rnd_eval\<close> and \<open>rnd_eval_frac\<close> compute a rounding from the
  binade of the argument and the mantissa to take; \<open>rnd_exact\<close> says that a double is
  left as it is; \<open>rnd_error\<close> bounds the relative error by \<open>2\<^sup>-\<^sup>5\<^sup>3\<close> where
  the result is neither subnormal nor infinite.
\<close>

lemma round_even_err: "\<bar>of_int (round_even q) - q\<bar> \<le> 1 / 2"
  unfolding round_even_def Let_def by (auto; linarith)

lemma round_even_strict: "\<bar>q - of_int m\<bar> < 1 / 2 \<Longrightarrow> round_even q = m"
proof -
  assume near: "\<bar>q - of_int m\<bar> < 1 / 2"
  have "\<bar>of_int (round_even q) - q\<bar> \<le> 1 / 2" by (rule round_even_err)
  with near have "\<bar>(of_int (round_even q) :: real) - of_int m\<bar> < 1" by linarith
  then have "\<bar>round_even q - m\<bar> < 1"
    by (metis of_int_diff of_int_abs of_int_less_1_iff)
  then show ?thesis by linarith
qed

lemma round_even_tie:
  assumes "\<bar>q - of_int m\<bar> = 1 / 2" "even m"
  shows "round_even q = m"
proof (cases "q = of_int m + 1 / 2")
  case True
  then have "\<lfloor>q\<rfloor> = m" by linarith
  with True assms(2) show ?thesis by (simp add: round_even_def)
next
  case False
  with assms(1) have q: "q = of_int (m - 1) + 1 / 2" by (simp add: abs_if split: if_splits)
  then have "\<lfloor>q\<rfloor> = m - 1" by linarith
  with q assms(2) show ?thesis by (simp add: round_even_def)
qed

lemma round_even_near:
  "\<bar>q - of_int m\<bar> < 1 / 2 \<or> (\<bar>q - of_int m\<bar> = 1 / 2 \<and> even m) \<Longrightarrow> round_even q = m"
  using round_even_strict round_even_tie by blast

lemma round_even_int [simp]: "round_even (of_int m) = m"
  by (rule round_even_strict) simp

lemma ulp_exp_eq:
  assumes "2 powi (e + 52) \<le> \<bar>r\<bar>" "\<bar>r\<bar> < 2 powi (e + 53)" "- 1074 \<le> e"
  shows "ulp_exp r = e"
proof -
  have pos: "0 < \<bar>r\<bar>" using assms(1) by (smt (verit) zero_less_power_int)
  have "(2::real) powr real_of_int (e + 52) = 2 powi (e + 52)"
    by (rule powr_real_of_int') simp_all
  moreover have "(2::real) powr (real_of_int (e + 52) + 1) = 2 powi (e + 53)"
    using powr_real_of_int' [of 2 "e + 53"] by (simp add: add.commute add.left_commute)
  ultimately have "\<lfloor>log 2 \<bar>r\<bar>\<rfloor> = e + 52"
    using assms(1,2) floor_log_eq_powr_iff [OF pos, of 2 "e + 52"] by simp
  with assms(3) show ?thesis by (simp add: ulp_exp_def)
qed

lemma rnd_eval:
  assumes "2 powi (e + 52) \<le> \<bar>r\<bar>" "\<bar>r\<bar> < 2 powi (e + 53)" "- 1074 \<le> e" "e \<le> 970"
    and near: "\<bar>r / 2 powi e - of_int m\<bar> < 1 / 2 \<or>
               (\<bar>r / 2 powi e - of_int m\<bar> = 1 / 2 \<and> even m)"
  shows "rnd r = Finite (of_int m * 2 powi e)"
proof -
  have e: "ulp_exp r = e" using assms(1-3) by (rule ulp_exp_eq)
  have nz: "r \<noteq> 0" using assms(1) by (smt (verit) zero_less_power_int)
  have m: "round_even (r / 2 powi e) = m" using near by (rule round_even_near)
  have p: "(0::real) < 2 powi e" by simp
  have "\<bar>r / 2 powi e\<bar> < 2 powi 53"
  proof -
    have "\<bar>r\<bar> / 2 powi e < 2 powi (e + 53) / 2 powi e"
      using assms(2) p by (simp add: divide_strict_right_mono)
    also have "(2::real) powi (e + 53) / 2 powi e = 2 powi 53"
      by (simp add: power_int_add)
    finally show ?thesis using p by (simp add: abs_divide)
  qed
  with near have "\<bar>real_of_int m\<bar> < 2 powi 53 + 1" by linarith
  then have "\<bar>real_of_int m\<bar> * 2 powi e < (2 powi 53 + 1) * 2 powi e"
    using p by (simp add: mult_strict_right_mono)
  also have "\<dots> \<le> (2 powi 53 + 1) * 2 powi 970"
    using assms(4) by (intro mult_left_mono power_int_increasing) simp_all
  also have "\<dots> < 2 powi 1024"
    by (simp add: power_int_def)
  finally have "\<bar>of_int m * 2 powi e\<bar> < (2::real) powi 1024"
    by (simp add: abs_mult)
  with nz e m show ?thesis by (simp add: rnd_def Let_def)
qed


lemma rnd_eval_frac:
  assumes "2 ^ 52 \<le> \<bar>r\<bar> * 2 ^ k" "\<bar>r\<bar> * 2 ^ k < 2 ^ 53" "k \<le> 1074"
    and "\<bar>r * 2 ^ k - of_int m\<bar> < 1 / 2 \<or> (\<bar>r * 2 ^ k - of_int m\<bar> = 1 / 2 \<and> even m)"
  shows "rnd r = Finite (of_int m / 2 ^ k)"
proof -
  have pk: "(2::real) powi (- int k) = 1 / 2 ^ k"
    by (simp add: power_int_minus divide_inverse)
  have "(2::real) powi (- int k + 52) = 2 powi (- int k) * 2 powi 52"
    by (rule power_int_add) simp
  then have a: "(2::real) powi (- int k + 52) = 2 ^ 52 / 2 ^ k"
    unfolding pk by simp
  have "(2::real) powi (- int k + 53) = 2 powi (- int k) * 2 powi 53"
    by (rule power_int_add) simp
  then have b: "(2::real) powi (- int k + 53) = 2 ^ 53 / 2 ^ k"
    unfolding pk by simp
  have "2 powi (- int k + 52) \<le> \<bar>r\<bar>"
    unfolding a using assms(1) by (simp add: pos_divide_le_eq)
  moreover have "\<bar>r\<bar> < 2 powi (- int k + 53)"
    unfolding b using assms(2) by (simp add: pos_less_divide_eq)
  moreover have "- 1074 \<le> - int k" "- int k \<le> 970" using assms(3) by simp_all
  moreover have "\<bar>r / 2 powi (- int k) - of_int m\<bar> < 1 / 2 \<or>
      (\<bar>r / 2 powi (- int k) - of_int m\<bar> = 1 / 2 \<and> even m)"
    unfolding pk using assms(4) by simp
  ultimately have "rnd r = Finite (of_int m * 2 powi (- int k))" by (rule rnd_eval)
  then show ?thesis by (simp add: pk)
qed

lemma rnd_exact:
  assumes r: "r = of_int m * 2 powi e0" and m: "\<bar>m\<bar> < 2 ^ 53"
    and lo: "- 1074 \<le> e0" and hi: "e0 \<le> 970"
  shows "rnd r = Finite r"
proof (cases "m = 0")
  case True
  with r show ?thesis by (simp add: rnd_def)
next
  case False
  then have nz: "r \<noteq> 0" using r by simp
  then have pos: "0 < \<bar>r\<bar>" by simp
  let ?E = "ulp_exp r"
  have "\<bar>r\<bar> = \<bar>real_of_int m\<bar> * 2 powi e0" using r by (simp add: abs_mult)
  also have "\<dots> < 2 ^ 53 * 2 powi e0"
  proof -
    have "\<bar>real_of_int m\<bar> < 2 ^ 53" using m by (metis of_int_abs of_int_less_numeral_power_cancel_iff)
    then show ?thesis by (simp add: mult_strict_right_mono)
  qed
  also have "\<dots> = 2 powi (e0 + 53)" by (simp add: power_int_add)
  finally have lt: "\<bar>r\<bar> < 2 powi (e0 + 53)" .
  have "(2::real) powr real_of_int (e0 + 53) = 2 powi (e0 + 53)"
    by (rule powr_real_of_int') simp_all
  with lt have "log 2 \<bar>r\<bar> < real_of_int (e0 + 53)"
    using pos by (simp add: log_less_iff)
  then have "\<lfloor>log 2 \<bar>r\<bar>\<rfloor> < e0 + 53" by linarith
  with lo have E: "?E \<le> e0" by (simp add: ulp_exp_def)
  then obtain d where d: "e0 = ?E + int d" by (metis zle_iff_zadd)
  define P :: real where "P = 2 powi ?E"
  have P: "0 < P" by (simp add: P_def)
  have "(2::real) powi (?E + int d) = 2 powi ?E * 2 powi (int d)"
    by (rule power_int_add) simp
  with d have "(2::real) powi e0 = P * 2 ^ d" by (simp add: P_def)
  with r have r': "r = of_int (m * 2 ^ d) * P" by simp
  then have "r / P = of_int (m * 2 ^ d)" using P by simp
  then have q: "round_even (r / 2 powi ?E) = m * 2 ^ d"
    unfolding P_def by (simp only: round_even_int)
  have v: "of_int (m * 2 ^ d) * 2 powi ?E = r"
    using r' by (simp add: P_def)
  have "2 powi (e0 + 53) \<le> (2::real) powi 1024"
    using hi by (intro power_int_increasing) simp_all
  with lt have "\<bar>r\<bar> < 2 powi 1024" by linarith
  with nz q v show ?thesis by (simp add: rnd_def Let_def)
qed

lemma rnd_int: "\<bar>m\<bar> < 2 ^ 53 \<Longrightarrow> rnd (of_int m) = Finite (of_int m)"
  using rnd_exact [of "of_int m" m 0] by simp

lemma rnd_numeral [simp]:
  "(numeral n :: int) < 2 ^ 53 \<Longrightarrow> rnd (numeral n) = Finite (numeral n)"
  using rnd_int [of "numeral n"] by simp

lemma rnd_neg_numeral [simp]:
  "(numeral n :: int) < 2 ^ 53 \<Longrightarrow> rnd (- numeral n) = Finite (- numeral n)"
  using rnd_int [of "- numeral n"] by simp

lemma rnd_zero [simp]: "rnd 0 = Finite 0"
  by (simp add: rnd_def)

lemma rnd_one [simp]: "rnd 1 = Finite 1"
  using rnd_int [of 1] by simp

lemma rnd_dyadic:
  "\<bar>m\<bar> < 2 ^ 53 \<Longrightarrow> k \<le> 1074 \<Longrightarrow> rnd (of_int m / 2 ^ k) = Finite (of_int m / 2 ^ k)"
  using rnd_exact [of "of_int m / 2 ^ k" m "- int k"]
  by (simp add: power_int_minus divide_inverse)


lemma rnd_half [simp]:
  "(numeral n :: int) < 2 ^ 53 \<Longrightarrow> rnd (numeral n / 2) = Finite (numeral n / 2)"
  using rnd_dyadic [of "numeral n" 1] by simp

lemma num_numeral [simp]:
  "(numeral n :: int) < 2 ^ 53 \<Longrightarrow> num (numeral n) = Finite (numeral n)"
  by (simp add: num_def)

lemma num_neg_numeral [simp]:
  "(numeral n :: int) < 2 ^ 53 \<Longrightarrow> num (- numeral n) = Finite (- numeral n)"
  by (simp add: num_def)

lemma num_zero [simp]: "num 0 = Finite 0"
  by (simp add: num_def)

lemma num_one [simp]: "num 1 = Finite 1"
  by (simp add: num_def)

section \<open>The transform store\<close>

lemma twoParts_files: "loadedFiles twoParts = [partA, partB]"
  by (simp add: twoParts_def partA_def partB_def eval_defs)

lemma twoParts_store: "modelTransformations twoParts = Map.empty"
  by (simp add: twoParts_def eval_defs)

text \<open>
  Claim C1 fails as stated. Two files of the same name are two models: two objects,
  two URLs. A delta applied to the first one is read back through the second one as
  well, since the store is indexed by the name.
\<close>

theorem transform_key_counterexample:
  "loadedFiles twoParts = [partA, partB]
   \<and> url partA \<noteq> url partB \<and> ref partA \<noteq> ref partB
   \<and> transformationsOf twoParts partB positionX = None
   \<and> transformationsOf (updateModelTransformation (name partA) positionX (num 10) twoParts)
        partB positionX = Some (Finite 10)"
  by (simp add: twoParts_files twoParts_store transformationsOf_def
      updateModelTransformation_def readAxis_def Let_def)
    (simp add: partA_def partB_def)

text \<open>
  Claim C1, amended. The store is keyed by the file name. Applying a delta to the
  model \<open>f\<close> leaves the record that is read for a model \<open>g\<close> unchanged when the
  names differ; when the names are equal, \<open>g\<close> reads the updated record of \<open>f\<close>.
\<close>

theorem transform_keyed_by_name:
  "transformationsOf (updateModelTransformation (name f) axis d s) g =
     (if name g = name f
      then (transformationsOf s f)
             (axis \<mapsto> fadd (readAxis (modelTransformations s) (name f) axis) d)
      else transformationsOf s g)"
  by (simp add: transformationsOf_def updateModelTransformation_def Let_def)

theorem transform_keyed_by_name_witness:
  "transformationsOf (updateModelTransformation (name partA) positionX (num 10) twoParts)
     (partB\<lparr>name := ''other.stl''\<rparr>) = Map.empty
   \<and> transformationsOf (updateModelTransformation (name partA) positionX (num 10) twoParts)
       partB = [positionX \<mapsto> Finite 10]"
  using transform_keyed_by_name [of partA positionX "num 10" twoParts
      "partB\<lparr>name := ''other.stl''\<rparr>"]
    transform_keyed_by_name [of partA positionX "num 10" twoParts partB]
  by (simp add: partA_def partB_def transformationsOf_def twoParts_store readAxis_def)

section \<open>Framing\<close>

text \<open>
  Claim C5. With no file loaded the effect leaves the scene as it is (the position of
  the group, the camera, the recorded count, and the number of bounding boxes computed so
  far) and carries out no reframe.
\<close>

theorem no_reframe_without_models:
  "framingEffect [] boundingBox sc = (sc, None)"
  by (simp add: framingEffect_def)

lemma framingEffect_emits:
  "(snd (framingEffect files boundingBox sc) \<noteq> None) =
   (groupMounted sc \<and> 0 < length files \<and> length files \<noteq> previousFileCount sc)"
  by (simp add: framingEffect_def Let_def)

lemma framingEffect_records:
  "previousFileCount (fst (framingEffect files boundingBox sc)) =
   (if snd (framingEffect files boundingBox sc) \<noteq> None then length files
    else previousFileCount sc)"
  by (simp add: framingEffect_def Let_def)

lemma framingEffect_settled:
  "length files' = length files \<Longrightarrow>
   snd (framingEffect files' boundingBox' (fst (framingEffect files boundingBox sc))) = None"
  by (simp add: framingEffect_def Let_def)

lemma step_file_count:
  "length (loadedFiles (app (step e u))) =
   length (loadedFiles (app u)) + (case e of Upload up \<Rightarrow> length up | _ \<Rightarrow> 0)"
  by (cases e)
    (simp_all add: upload_length loadedFiles_toggleFileVisibility toggleMap_length
      split: option.splits)

text \<open>
  Claim C2, amended. The effect carries out a reframe exactly when the group is mounted
  and the number of loaded files, hidden ones included, is positive and differs from the
  recorded count; it records the new count exactly then. Of all events only an upload
  changes the number of loaded files: once the effect has run, a click on a file, a
  visibility toggle or a transform edit is never followed by a reframe.
\<close>

theorem reframe_on_file_count:
  "(snd (framingEffect files boundingBox sc) \<noteq> None) =
     (groupMounted sc \<and> 0 < length files \<and> length files \<noteq> previousFileCount sc)
   \<and> previousFileCount (fst (framingEffect files boundingBox sc)) =
       (if snd (framingEffect files boundingBox sc) \<noteq> None then length files
        else previousFileCount sc)
   \<and> length (loadedFiles (app (step e u))) =
       length (loadedFiles (app u)) + (case e of Upload up \<Rightarrow> length up | _ \<Rightarrow> 0)
   \<and> (case e of
         Upload up \<Rightarrow> True
       | _ \<Rightarrow> snd (framingEffect (loadedFiles (app (step e u))) boundingBox'
                  (fst (framingEffect (loadedFiles (app u)) boundingBox sc))) = None)"
proof (intro conjI)
  show "(snd (framingEffect files boundingBox sc) \<noteq> None) =
     (groupMounted sc \<and> 0 < length files \<and> length files \<noteq> previousFileCount sc)"
    by (rule framingEffect_emits)
  show "previousFileCount (fst (framingEffect files boundingBox sc)) =
       (if snd (framingEffect files boundingBox sc) \<noteq> None then length files
        else previousFileCount sc)"
    by (rule framingEffect_records)
  show "length (loadedFiles (app (step e u))) =
       length (loadedFiles (app u)) + (case e of Upload up \<Rightarrow> length up | _ \<Rightarrow> 0)"
    by (rule step_file_count)
  show "case e of
         Upload up \<Rightarrow> True
       | _ \<Rightarrow> snd (framingEffect (loadedFiles (app (step e u))) boundingBox'
                  (fst (framingEffect (loadedFiles (app u)) boundingBox sc))) = None"
    using step_file_count [of e u] framingEffect_settled [of "loadedFiles (app (step e u))"
        "loadedFiles (app u)" boundingBox' boundingBox sc]
    by (cases e) simp_all
qed

theorem reframe_on_file_count_witness:
  "snd (framingEffect [partA] unitBox initialScene) \<noteq> None
   \<and> snd (framingEffect [partA, partB] unitBox (initialScene\<lparr>previousFileCount := 1\<rparr>)) \<noteq> None
   \<and> snd (framingEffect [partA] unitBox (initialScene\<lparr>previousFileCount := 2\<rparr>)) \<noteq> None
   \<and> snd (framingEffect [partA, partB] unitBox (initialScene\<lparr>previousFileCount := 2\<rparr>)) = None"
  using reframe_on_file_count [of "[partA]" unitBox initialScene]
    reframe_on_file_count [of "[partA, partB]" unitBox "initialScene\<lparr>previousFileCount := 1\<rparr>"]
    reframe_on_file_count [of "[partA]" unitBox "initialScene\<lparr>previousFileCount := 2\<rparr>"]
    reframe_on_file_count [of "[partA, partB]" unitBox "initialScene\<lparr>previousFileCount := 2\<rparr>"]
  by (simp add: initialScene_def)

lemma twoLoaded_files:
  "loadedFiles (app twoLoaded) =
     [\<lparr>ref = 0, name = ''a.stl'', url = ''blob:a'', visible = Some True, color = Some ''#858585''\<rparr>,
      \<lparr>ref = 1, name = ''b.stl'', url = ''blob:b'', visible = Some True, color = Some ''#9a9a9a''\<rparr>]"
  by (simp add: twoLoaded_def eval_defs)

lemma nextRef_twoLoaded: "nextRef (app twoLoaded) = 2"
  by (simp add: twoLoaded_def eval_defs)

lemma oneHidden_files:
  "loadedFiles (app oneHidden) =
     [\<lparr>ref = 0, name = ''a.stl'', url = ''blob:a'', visible = Some True, color = Some ''#858585''\<rparr>,
      \<lparr>ref = 2, name = ''b.stl'', url = ''blob:b'', visible = Some False, color = Some ''#9a9a9a''\<rparr>]"
  by (simp add: oneHidden_def twoLoaded_files nextRef_twoLoaded toggleFileVisibility_def)

lemma framedScene_eq:
  "framedScene =
     \<lparr>groupMounted = True, groupPosition = (Finite (- 1), Finite (- 2), Finite (- 3)),
      cameraPos = (Finite 1, Finite 2, Finite (21 / 2)),
      cameraTarget = (Finite 1, Finite 2, Finite 3), previousFileCount = 2,
      boxesComputed = 1\<rparr>"
proof -
  have "sqrt 25 = 5" using real_sqrt_abs [of 5] by simp
  then show ?thesis
    by (simp add: framedScene_def framingEffect_def twoLoaded_files initialScene_def unitBox_def
        vlength_def vadd_def vneg_def Let_def num_def)
qed

text \<open>
  Claim C2 fails as stated. Two files are loaded and framed, both visible, and the count
  2 is recorded. Hiding one of them changes the number of visible models from 2 to 1,
  and the effect carries out no reframe.
\<close>

theorem reframe_visible_count_counterexample:
  "visibleCount (loadedFiles (app twoLoaded)) = 2
   \<and> snd (framingEffect (loadedFiles (app twoLoaded)) unitBox initialScene) \<noteq> None
   \<and> previousFileCount framedScene = 2
   \<and> visibleCount (loadedFiles (app oneHidden)) = 1
   \<and> snd (framingEffect (loadedFiles (app oneHidden)) unitBox framedScene) = None"
  by (simp add: framedScene_eq twoLoaded_files oneHidden_files visibleCount_def isVisible_def
      framingEffect_def initialScene_def Let_def)

section \<open>Units\<close>















section \<open>Rotation: the normalized target\<close>

lemma trunc_eval:
  "(0 \<le> q \<and> of_int t \<le> q \<and> q < of_int t + 1) \<or>
   (q < 0 \<and> of_int t - 1 < q \<and> q \<le> of_int t) \<Longrightarrow> trunc q = t"
  unfolding trunc_def by (auto; linarith)

lemma num_180: "num 180 = Finite 180"
  by simp

lemma num_360: "num 360 = Finite 360"
  by simp

text \<open>
  The operations on doubles that the two edits of claim C7 and the two clicks of claim C4
  carry out, one by one.
\<close>

lemma ev1: "fmul (Finite 350) (Finite (884279719003555 / 2 ^ 48)) =
    Finite (4835904713300691 / 2 ^ 42)"
  using rnd_eval_frac [of "(154748950825622125 / 140737488355328)" 42 "4835904713300691"]
  by simp

lemma ev2: "fdiv (Finite (4835904713300691 / 2 ^ 42)) (Finite 180) =
    Finite (6877731147805427 / 2 ^ 50)"
  using rnd_eval_frac [of "(537322745922299 / 87960930222080)" 50 "6877731147805427"] by simp

lemma ev3: "fmul (Finite (6877731147805427 / 2 ^ 50)) (Finite 180) =
    Finite (4835904713300691 / 2 ^ 42)"
  using rnd_eval_frac [of "(309497901651244215 / 281474976710656)" 42 "4835904713300691"]
  by simp

lemma ev4: "fdiv (Finite (4835904713300691 / 2 ^ 42)) (Finite (884279719003555 / 2 ^ 48)) =
    Finite (6157265115545599 / 2 ^ 44)"
  using rnd_eval_frac [of "(309497901651244224 / 884279719003555)" 44 "6157265115545599"]
  by simp

lemma ev5: "frem (Finite (6157265115545599 / 2 ^ 44)) (Finite 360) =
    Finite (6157265115545599 / 2 ^ 44)"
  using trunc_eval [of "(6157265115545599 / 6333186975989760)" "0"] by simp

lemma ev6: "fadd (Finite (6157265115545599 / 2 ^ 44)) (Finite 360) = Finite 710"
  using rnd_eval_frac [of "(12490452091535359 / 17592186044416)" 43 "6245226045767680"] by simp

lemma ev7: "frem (Finite 710) (Finite 360) = Finite 350"
  using trunc_eval [of "(71 / 36)" "1"] by simp

lemma ev8: "radiansToDegrees (Finite (6877731147805427 / 2 ^ 50)) = Finite 350"
  by (simp only: radiansToDegrees_def Let_def num_180 num_360 Math_PI_def ev3 ev4 ev5 ev6 ev7)

lemma ev9: "fadd (Finite 350) (Finite 20) = Finite 370"
  by simp

lemma ev10: "frem (Finite 370) (Finite 360) = Finite 10"
  using trunc_eval [of "(37 / 36)" "1"] by simp

lemma ev11: "fadd (Finite 10) (Finite 360) = Finite 370"
  by simp

lemma ev12: "fmul (Finite 10) (Finite (884279719003555 / 2 ^ 48)) =
    Finite (4421398595017775 / 2 ^ 47)"
  using rnd_eval_frac [of "(4421398595017775 / 140737488355328)" 48 "8842797190035550"] by simp

lemma ev13: "fdiv (Finite (4421398595017775 / 2 ^ 47)) (Finite 180) =
    Finite (6288211335136391 / 2 ^ 55)"
  using rnd_eval_frac [of "(884279719003555 / 5066549580791808)" 55 "6288211335136391"] by simp

lemma ev14: "degreesToRadians (Finite 370) = Finite (6288211335136391 / 2 ^ 55)"
  by (simp only: degreesToRadians_def Let_def num_180 num_360 Math_PI_def ev10 ev11 ev12 ev13)

lemma ev15: "fsub (Finite (6288211335136391 / 2 ^ 55)) (Finite (6877731147805427 / 2 ^ 50)) =
    Finite (- (6681224543582415 / 2 ^ 50))"
  using rnd_eval_frac 
    [of "(- (213799185394637273 / 36028797018963968))" 50 "- 6681224543582415"]
  by (simp add: fsub_def)

lemma ev16: 
  "fadd (Finite (6877731147805427 / 2 ^ 50))
     (Finite (- (6681224543582415 / 2 ^ 50))) =
    Finite (49126651055753 / 2 ^ 48)"
  using rnd_eval_frac [of "(49126651055753 / 281474976710656)" 55 "6288211335136384"] by simp

lemma ev17: "fmul (Finite 5) (Finite (884279719003555 / 2 ^ 48)) =
    Finite (4421398595017775 / 2 ^ 48)"
  using rnd_eval_frac [of "(4421398595017775 / 281474976710656)" 49 "8842797190035550"] by simp

lemma ev18: "fdiv (Finite (4421398595017775 / 2 ^ 48)) (Finite 180) =
    Finite (6288211335136391 / 2 ^ 56)"
  using rnd_eval_frac [of "(884279719003555 / 10133099161583616)" 56 "6288211335136391"] by simp

lemma ev19: "fmul (Finite (6288211335136391 / 2 ^ 56)) (Finite 180) =
    Finite (4421398595017775 / 2 ^ 48)"
  using rnd_eval_frac [of "(282969510081137595 / 18014398509481984)" 49 "8842797190035550"]
  by simp

lemma ev20: "fdiv (Finite (4421398595017775 / 2 ^ 48)) (Finite (884279719003555 / 2 ^ 48)) =
    Finite 5"
  by simp

lemma ev21: "frem (Finite 5) (Finite 360) = Finite 5"
  using trunc_eval [of "(1 / 72)" "0"] by simp

lemma ev22: "fadd (Finite 5) (Finite 360) = Finite 365"
  by simp

lemma ev23: "frem (Finite 365) (Finite 360) = Finite 5"
  using trunc_eval [of "(73 / 72)" "1"] by simp

lemma ev24: "radiansToDegrees (Finite (6288211335136391 / 2 ^ 56)) = Finite 5"
  by (simp only: radiansToDegrees_def Let_def num_180 num_360 Math_PI_def ev19 ev20 ev21 ev22 ev23)

lemma ev25: "fadd (Finite 5) (Finite (- 20)) = Finite (- 15)"
  by simp

lemma ev26: "frem (Finite (- 15)) (Finite 360) = Finite (- 15)"
  using trunc_eval [of "(- (1 / 24))" "0"] by simp

lemma ev27: "fadd (Finite (- 15)) (Finite 360) = Finite 345"
  by simp

lemma ev28: "frem (Finite 345) (Finite 360) = Finite 345"
  using trunc_eval [of "(23 / 24)" "0"] by simp

lemma ev29: "fmul (Finite 345) (Finite (884279719003555 / 2 ^ 48)) =
    Finite (4766820360253539 / 2 ^ 42)"
  using rnd_eval_frac [of "(305076503056226475 / 281474976710656)" 42 "4766820360253539"]
  by simp

lemma ev30: "fdiv (Finite (4766820360253539 / 2 ^ 42)) (Finite 180) =
    Finite (3389738922846961 / 2 ^ 49)"
  using rnd_eval_frac [of "(1588940120084513 / 263882790666240)" 50 "6779477845693922"] by simp

lemma ev31: "degreesToRadians (Finite (- 15)) = Finite (3389738922846961 / 2 ^ 49)"
  by (simp only: degreesToRadians_def Let_def num_180 num_360 Math_PI_def ev26 ev27 ev28 ev29 ev30)

lemma ev32: "fsub (Finite (3389738922846961 / 2 ^ 49)) (Finite (6288211335136391 / 2 ^ 56)) =
    Finite (417576533973901 / 2 ^ 46)"
  using rnd_eval_frac [of "(427598370789274617 / 72057594037927936)" 50 "6681224543582416"]
  by (simp add: fsub_def)

lemma ev33: "fadd (Finite (6288211335136391 / 2 ^ 56)) (Finite (417576533973901 / 2 ^ 46)) =
    Finite (3389738922846961 / 2 ^ 49)"
  using rnd_eval_frac [of "(433886582124411015 / 72057594037927936)" 50 "6779477845693922"]
  by simp

lemma ev34: "fmul (Finite 0) (Finite 180) = Finite 0"
  by simp

lemma ev35: "fdiv (Finite 0) (Finite (884279719003555 / 2 ^ 48)) = Finite 0"
  by simp

lemma ev36: "frem (Finite 0) (Finite 360) = Finite 0"
  using trunc_eval [of "0" "0"] by simp

lemma ev37: "fadd (Finite 0) (Finite 360) = Finite 360"
  by simp

lemma ev38: "frem (Finite 360) (Finite 360) = Finite 0"
  using trunc_eval [of "1" "1"] by simp

lemma ev39: "radiansToDegrees (Finite 0) = Finite 0"
  by (simp only: radiansToDegrees_def Let_def num_180 num_360 Math_PI_def ev34 ev35 ev36 ev37 ev38)

lemma ev40: "fadd (Finite 0) (Finite (- 2)) = Finite (- 2)"
  by simp

lemma ev41: "frem (Finite (- 2)) (Finite 360) = Finite (- 2)"
  using trunc_eval [of "(- (1 / 180))" "0"] by simp

lemma ev42: "fadd (Finite (- 2)) (Finite 360) = Finite 358"
  by simp

lemma ev43: "frem (Finite 358) (Finite 360) = Finite 358"
  using trunc_eval [of "(179 / 180)" "0"] by simp

lemma ev44: "fmul (Finite 358) (Finite (884279719003555 / 2 ^ 48)) =
    Finite (618304959772017 / 2 ^ 39)"
  using rnd_eval_frac [of "(158286069701636345 / 140737488355328)" 42 "4946439678176136"]
  by simp

lemma ev45: "fdiv (Finite (618304959772017 / 2 ^ 39)) (Finite 180) =
    Finite (3517468215591919 / 2 ^ 49)"
  using rnd_eval_frac [of "(206101653257339 / 32985348833280)" 50 "7034936431183838"] by simp

lemma ev46: "degreesToRadians (Finite (- 2)) = Finite (3517468215591919 / 2 ^ 49)"
  by (simp only: degreesToRadians_def Let_def num_180 num_360 Math_PI_def ev41 ev42 ev43 ev44 ev45)

lemma ev47: "fsub (Finite (3517468215591919 / 2 ^ 49)) (Finite 0) =
    Finite (3517468215591919 / 2 ^ 49)"
  using rnd_eval_frac [of "(3517468215591919 / 562949953421312)" 50 "7034936431183838"]
  by (simp add: fsub_def)

lemma ev48: "fadd (Finite 0) (Finite (3517468215591919 / 2 ^ 49)) =
    Finite (3517468215591919 / 2 ^ 49)"
  using rnd_eval_frac [of "(3517468215591919 / 562949953421312)" 50 "7034936431183838"] by simp

lemma ev49: "fmul (Finite (3517468215591919 / 2 ^ 49)) (Finite 180) =
    Finite (618304959772017 / 2 ^ 39)"
  using rnd_eval_frac [of "(158286069701636355 / 140737488355328)" 42 "4946439678176136"]
  by simp

lemma ev50: "fdiv (Finite (618304959772017 / 2 ^ 39)) (Finite (884279719003555 / 2 ^ 48)) =
    Finite 358"
  using rnd_eval_frac [of "(45224591343324672 / 126325674143365)" 44 "6298002603900928"] by simp

lemma ev51: "fadd (Finite 358) (Finite 360) = Finite 718"
  by simp

lemma ev52: "frem (Finite 718) (Finite 360) = Finite 358"
  using trunc_eval [of "(359 / 180)" "1"] by simp

lemma ev53: "radiansToDegrees (Finite (3517468215591919 / 2 ^ 49)) = Finite 358"
  by (simp only: radiansToDegrees_def Let_def num_180 num_360 Math_PI_def ev49 ev50 ev43 ev51 ev52)

lemma ev54: "fadd (Finite 358) (Finite 5) = Finite 363"
  by simp

lemma ev55: "frem (Finite 363) (Finite 360) = Finite 3"
  using trunc_eval [of "(121 / 120)" "1"] by simp

lemma ev56: "fadd (Finite 3) (Finite 360) = Finite 363"
  by simp

lemma ev57: "fmul (Finite 3) (Finite (884279719003555 / 2 ^ 48)) =
    Finite (2652839157010665 / 2 ^ 48)"
  using rnd_eval_frac [of "(2652839157010665 / 281474976710656)" 49 "5305678314021330"] by simp

lemma ev58: "fdiv (Finite (2652839157010665 / 2 ^ 48)) (Finite 180) =
    Finite (7545853602163669 / 2 ^ 57)"
  using rnd_eval_frac [of "(176855943800711 / 3377699720527872)" 57 "7545853602163669"] by simp

lemma ev59: "degreesToRadians (Finite 363) = Finite (7545853602163669 / 2 ^ 57)"
  by (simp only: degreesToRadians_def Let_def num_180 num_360 Math_PI_def ev55 ev56 ev57 ev58)

lemma ev60: "fsub (Finite (7545853602163669 / 2 ^ 57)) (Finite (3517468215591919 / 2 ^ 49)) =
    Finite (- (3487992224958467 / 2 ^ 49))"
  using rnd_eval_frac 
    [of "(- (892926009589367595 / 144115188075855872))" 50 "- 6975984449916934"]
  by (simp add: fsub_def)

lemma ev61: 
  "fadd (Finite (3517468215591919 / 2 ^ 49))
     (Finite (- (3487992224958467 / 2 ^ 49))) =
    Finite (7368997658363 / 2 ^ 47)"
  using rnd_eval_frac [of "(7368997658363 / 140737488355328)" 57 "7545853602163712"] by simp

lemma ev62: "num 3 = Finite 3"
  by (simp add: num_def)

lemma ev63: "frem (Finite 3) (Finite 360) = Finite 3"
  using trunc_eval [of "(1 / 120)" "0"] by simp

lemma ev64: "degreesToRadians (Finite 3) = Finite (7545853602163669 / 2 ^ 57)"
  by (simp only: degreesToRadians_def Let_def num_180 num_360 Math_PI_def ev63 ev56 ev55 ev57 ev58)

lemma ev65: "num 350 = Finite 350"
  by (simp add: num_def)

lemma ev66: "num 20 = Finite 20"
  by (simp add: num_def)

lemma ev67: "num 10 = Finite 10"
  by (simp add: num_def)

lemma ev68: "num 5 = Finite 5"
  by (simp add: num_def)

lemma ev69: "num (- 20) = Finite (- 20)"
  by (simp add: num_def)

lemma ev70: "num 345 = Finite 345"
  by (simp add: num_def)

lemmas rotation_evals = ev1 ev2 ev3 ev4 ev5 ev6 ev7 ev8 ev9 ev10 ev11 ev12
  ev13 ev14 ev15 ev16 ev17 ev18 ev19 ev20 ev21 ev22 ev23 ev24
  ev25 ev26 ev27 ev28 ev29 ev30 ev31 ev32 ev33 ev34 ev35 ev36
  ev37 ev38 ev39 ev40 ev41 ev42 ev43 ev44 ev45 ev46 ev47 ev48
  ev49 ev50 ev51 ev52 ev53 ev54 ev55 ev56 ev57 ev58 ev59 ev60
  ev61 ev62 ev63 ev64 ev65 ev66 ev67 ev68 ev69 ev70


text \<open>
  What \<open>updateRotation\<close> then leaves in the store is the stored value plus the rounded
  difference to the target: for the first edit the double 0.17453292519943275, which is
  not the target, for the second edit the target.
\<close>

lemma stored_after_wraparound:
  "fadd (Finite (6877731147805427 / 2 ^ 50))
     (fsub (Finite (6288211335136391 / 2 ^ 55)) (Finite (6877731147805427 / 2 ^ 50))) =
     Finite (49126651055753 / 2 ^ 48)
   \<and> fadd (Finite (6288211335136391 / 2 ^ 56))
       (fsub (Finite (3389738922846961 / 2 ^ 49)) (Finite (6288211335136391 / 2 ^ 56))) =
       Finite (3389738922846961 / 2 ^ 49)"
  by (simp only: rotation_evals simp_thms)

section \<open>Rotation: the stored value\<close>

lemma orZero_Finite: "orZero (Some (Finite a)) = Finite a"
  by simp

lemma readAxis_update:
  "readAxis (modelTransformations (updateModelTransformation n a d s)) n' a' =
   (if n' = n \<and> a' = a then orZero (Some (fadd (readAxis (modelTransformations s) n a) d))
    else readAxis (modelTransformations s) n' a')"
  by (simp add: updateModelTransformation_def readAxis_def Let_def split: option.splits)

lemma readAxis_updateRotation:
  "readAxis (modelTransformations (updateRotation f a d s)) (name f) a =
   orZero (Some (fadd (readAxis (modelTransformations s) (name f) a)
     (fsub (degreesToRadians
              (fadd (radiansToDegrees (readAxis (modelTransformations s) (name f) a)) d))
        (readAxis (modelTransformations s) (name f) a))))"
  by (simp add: updateRotation_def Let_def readAxis_update)

lemma turnedOnce_unfold:
  "app turnedOnce =
     updateRotation partA rotationX (Finite (- 2))
       (app (run [Upload [(''part.stl'', ''blob:1'')], ClickFile 0] initialUI))"
  by (simp add: turnedOnce_def partA_def eval_defs)

lemma turnedOnce_panel:
  "selectedFile (app turnedOnce) = Some partA \<and> transformMode (panel turnedOnce) = rotation
   \<and> selectedAxis (panel turnedOnce) = rotationX"
  by (simp add: turnedOnce_def partA_def eval_defs)

lemma turnedOnce_value:
  "readAxis (modelTransformations (app turnedOnce)) ''part.stl'' rotationX =
     Finite (3517468215591919 / 2 ^ 49)"
proof -
  let ?s0 = "app (run [Upload [(''part.stl'', ''blob:1'')], ClickFile 0] initialUI)"
  have zero: "readAxis (modelTransformations ?s0) (name partA) rotationX = Finite 0"
    by (simp add: eval_defs readAxis_def)
  have "readAxis (modelTransformations (updateRotation partA rotationX (Finite (- 2)) ?s0))
          (name partA) rotationX = Finite (3517468215591919 / 2 ^ 49)"
    unfolding readAxis_updateRotation zero
    by (simp only: rotation_evals orZero_Finite)
  then show ?thesis by (simp add: turnedOnce_unfold partA_def)
qed

lemma turnedTwice_value:
  "readAxis (modelTransformations (app turnedTwice)) ''part.stl'' rotationX =
     Finite (7368997658363 / 2 ^ 47)"
proof -
  have "app turnedTwice = updateRotation partA rotationX (Finite 5) (app turnedOnce)"
    using turnedOnce_panel by (simp add: turnedTwice_def)
  moreover have "readAxis (modelTransformations (app turnedOnce)) (name partA) rotationX =
      Finite (3517468215591919 / 2 ^ 49)"
    using turnedOnce_value by (simp add: partA_def)
  ultimately have "readAxis (modelTransformations (app turnedTwice)) (name partA) rotationX =
      Finite (7368997658363 / 2 ^ 47)"
    by (simp only: readAxis_updateRotation rotation_evals orZero_Finite)
  then show ?thesis by (simp add: partA_def)
qed

text \<open>
  Claim C4, at the run \<open>turnedTwice\<close>: a fresh model is turned by \<open>-2\<close> degrees and
  then by \<open>+5\<close> degrees. After the first click the store holds the radians of 358
  degrees, which are displayed as 358 degrees. The second click computes the normalized
  target 0.05235987755982988, the radians of 3 degrees, and hands the store the rounded
  difference to the stored value; the store then holds 0.05235987755983018, which is not
  the target.
\<close>

theorem rotation_edit_misses_target:
  "readAxis (modelTransformations (app turnedOnce)) ''part.stl'' rotationX =
     Finite (3517468215591919 / 2 ^ 49)
   \<and> radiansToDegrees (Finite (3517468215591919 / 2 ^ 49)) = Finite 358
   \<and> degreesToRadians (fadd (Finite 358) (rotateStep Plus5)) =
       Finite (7545853602163669 / 2 ^ 57)
   \<and> degreesToRadians (num 3) = Finite (7545853602163669 / 2 ^ 57)
   \<and> readAxis (modelTransformations (app turnedTwice)) ''part.stl'' rotationX =
       Finite (7368997658363 / 2 ^ 47)
   \<and> Finite (7368997658363 / 2 ^ 47) \<noteq> Finite (7545853602163669 / 2 ^ 57)"
proof (intro conjI)
  show "radiansToDegrees (Finite (3517468215591919 / 2 ^ 49)) = Finite 358"
    by (simp only: rotation_evals)
  show "degreesToRadians (fadd (Finite 358) (rotateStep Plus5)) =
       Finite (7545853602163669 / 2 ^ 57)"
    by (simp only: rotateStep.simps rotation_evals)
  show "degreesToRadians (num 3) = Finite (7545853602163669 / 2 ^ 57)"
    by (simp only: rotation_evals)
qed (simp_all add: turnedOnce_value turnedTwice_value)

end
